theory Spec2Isabelle
  imports Main
begin

section \<open>The prejoin screen: data model\<close>

text \<open>
  Embedding of \<^verbatim>\<open>react/features/prejoin/components/Prejoin.js\<close>.

  The component reads its props, keeps one boolean of local state and calls the
  function-valued props. The boolean and string props are fields of the record
  \<open>Props\<close>. The function-valued props (\<^verbatim>\<open>joinConference\<close>,
  \<^verbatim>\<open>joinConferenceWithoutAudio\<close>, \<^verbatim>\<open>updateSettings\<close>,
  \<^verbatim>\<open>setSkipPrejoin\<close>, \<^verbatim>\<open>setJoinByPhoneDialogVisiblity\<close>) are opaque to
  this file: a call of one of them is recorded, with its argument, in a log of effects
  kept in program order. \<^verbatim>\<open>e.stopPropagation()\<close> and \<^verbatim>\<open>this.setState\<close> are
  recorded in the same log, so that the order of the calls of a handler can be read off.
\<close>

text \<open>The video track is an opaque object owned elsewhere; only its identity is kept.\<close>

type_synonym jitsi_track = nat

text \<open>The object returned by \<^verbatim>\<open>mapStateToProps\<close> (lines 367-377).\<close>

record StateProps =
  buttonIsToggled :: bool
  joinButtonDisabled :: bool
  name :: string
  deviceStatusVisible :: bool
  roomName :: string
  showDialog :: bool
  hasJoinByPhoneButton :: bool
  showCameraPreview :: bool
  videoTrack :: "jitsi_track option"

text \<open>
  The props of the component (type \<^verbatim>\<open>Props\<close>, lines 31-117): the projected ones, the
  two that the parent supplies, and the translation function.
\<close>

record Props = StateProps +
  showAvatar :: bool
  showJoinActions :: bool
  t :: "string \<Rightarrow> string"

text \<open>The local state (type \<^verbatim>\<open>State\<close>, lines 119-125).\<close>

record State =
  showJoinByPhoneButtons :: bool

text \<open>What a handler does to the outside, in the order in which it does it.\<close>

datatype effect =
    JoinConference
  | JoinConferenceWithoutAudio
  | UpdateSettings string
  | SetSkipPrejoin bool
  | SetJoinByPhoneDialogVisiblity bool
  | StopPropagation
  | SetState State

text \<open>The component instance while a handler runs: its state and the log of effects.\<close>

record Instance =
  state :: State
  effects :: "effect list"

definition call :: "effect \<Rightarrow> Instance \<Rightarrow> Instance" where
  "call e i = i\<lparr>effects := effects i @ [e]\<rparr>"

text \<open>
  \<^verbatim>\<open>this.setState(s)\<close>: the state has one field, so the merged state is \<open>s\<close>. The
  state is the one React has applied when the handler is over.
\<close>

definition setState :: "State \<Rightarrow> Instance \<Rightarrow> Instance" where
  "setState s i = i\<lparr>state := s, effects := effects i @ [SetState s]\<rparr>"

section \<open>Constructor and handlers\<close>

text \<open>Lines 145-158.\<close>

definition constructor :: "Props \<Rightarrow> Instance" where
  "constructor p = \<lparr>state = \<lparr>showJoinByPhoneButtons = False\<rparr>, effects = []\<rparr>"

text \<open>\<^verbatim>\<open>_onToggleButtonClick\<close>, lines 168-170.\<close>

definition Prejoin_onToggleButtonClick :: "Props \<Rightarrow> Instance \<Rightarrow> Instance" where
  "Prejoin_onToggleButtonClick p i = call (SetSkipPrejoin (\<not> buttonIsToggled p)) i"

text \<open>\<^verbatim>\<open>_onDropdownClose\<close>, lines 179-183.\<close>

definition Prejoin_onDropdownClose :: "Props \<Rightarrow> Instance \<Rightarrow> Instance" where
  "Prejoin_onDropdownClose p i = setState \<lparr>showJoinByPhoneButtons = False\<rparr> i"

text \<open>\<^verbatim>\<open>_onOptionsClick\<close>, lines 193-199.\<close>

definition Prejoin_onOptionsClick :: "Props \<Rightarrow> Instance \<Rightarrow> Instance" where
  "Prejoin_onOptionsClick p i =
     (let i1 = call StopPropagation i
      in setState \<lparr>showJoinByPhoneButtons = \<not> showJoinByPhoneButtons (state i1)\<rparr> i1)"

text \<open>\<^verbatim>\<open>_setName\<close>, lines 209-213.\<close>

definition Prejoin_setName :: "Props \<Rightarrow> string \<Rightarrow> Instance \<Rightarrow> Instance" where
  "Prejoin_setName p displayName i = call (UpdateSettings displayName) i"

text \<open>\<^verbatim>\<open>_closeDialog\<close>, lines 222-224.\<close>

definition Prejoin_closeDialog :: "Props \<Rightarrow> Instance \<Rightarrow> Instance" where
  "Prejoin_closeDialog p i = call (SetJoinByPhoneDialogVisiblity False) i"

text \<open>\<^verbatim>\<open>_showDialog\<close>, lines 233-236.\<close>

definition Prejoin_showDialog :: "Props \<Rightarrow> Instance \<Rightarrow> Instance" where
  "Prejoin_showDialog p i =
     (let i1 = call (SetJoinByPhoneDialogVisiblity True) i
      in Prejoin_onDropdownClose p i1)"

section \<open>Rendering\<close>

text \<open>
  The callbacks that \<^verbatim>\<open>render\<close> hands to its children: the six bound methods of the
  instance (line 259 and line 349) and the two function props it passes on.
\<close>

datatype callback =
    CloseDialog
  | OnDropdownClose
  | OnOptionsClick
  | SetName
  | ShowDialog
  | OnToggleButtonClick
  | JoinConferenceProp
  | JoinConferenceWithoutAudioProp

datatype icon = IconPhone | IconVolumeOff

text \<open>
  A JSX value: an element (its component or tag name, its attributes in source order, its
  children in source order) or one of the values that occur as attribute or child. The
  value \<open>BoolVal False\<close> as a child is what \<^verbatim>\<open>cond && <X/>\<close> leaves when \<open>cond\<close> is
  false; React displays nothing for it.
\<close>

datatype jsx =
    Element string "(string \<times> jsx) list" "jsx list"
  | TextVal string
  | BoolVal bool
  | NumVal int
  | Fn callback
  | IconRef icon
  | TrackRef "jitsi_track option"

text \<open>\<^verbatim>\<open>_renderFooter\<close>, lines 333-335.\<close>

definition Prejoin_renderFooter :: "Props \<Rightarrow> jsx" where
  "Prejoin_renderFooter p =
     (if deviceStatusVisible p then Element ''DeviceStatus'' [] [] else BoolVal False)"

text \<open>\<^verbatim>\<open>_renderSkipPrejoinButton\<close>, lines 342-354.\<close>

definition Prejoin_renderSkipPrejoinButton :: "Props \<Rightarrow> jsx" where
  "Prejoin_renderSkipPrejoinButton p =
     Element ''div'' [(''className'', TextVal ''prejoin-checkbox-container'')]
       [Element ''ToggleButton''
          [(''isToggled'', BoolVal (buttonIsToggled p)),
           (''onClick'', Fn OnToggleButtonClick)]
          [TextVal (t p ''prejoin.doNotShow'')]]"

text \<open>The value of the \<^verbatim>\<open>content\<close> attribute of the dropdown, lines 283-302.\<close>

definition dropdown_content :: "Props \<Rightarrow> jsx" where
  "dropdown_content p =
     Element ''div'' [(''className'', TextVal ''prejoin-preview-dropdown-btns'')]
       [Element ''div''
          [(''className'', TextVal ''prejoin-preview-dropdown-btn''),
           (''onClick'', Fn JoinConferenceWithoutAudioProp)]
          [Element ''Icon''
             [(''className'', TextVal ''prejoin-preview-dropdown-icon''),
              (''size'', NumVal 24),
              (''src'', IconRef IconVolumeOff)] [],
           TextVal (t p ''prejoin.joinWithoutAudio'')],
        (if hasJoinByPhoneButton p
         then Element ''div''
                [(''className'', TextVal ''prejoin-preview-dropdown-btn''),
                 (''onClick'', Fn ShowDialog)]
                [Element ''Icon''
                   [(''className'', TextVal ''prejoin-preview-dropdown-icon''),
                    (''size'', NumVal 24),
                    (''src'', IconRef IconPhone)] [],
                 TextVal (t p ''prejoin.joinAudioByPhone'')]
         else BoolVal False)]"

text \<open>The input area, lines 273-317.\<close>

definition input_area :: "Props \<Rightarrow> State \<Rightarrow> jsx" where
  "input_area p s =
     Element ''div'' [(''className'', TextVal ''prejoin-input-area-container'')]
       [Element ''div'' [(''className'', TextVal ''prejoin-input-area'')]
          [Element ''InputField''
             [(''onChange'', Fn SetName),
              (''onSubmit'', Fn JoinConferenceProp),
              (''placeHolder'', TextVal (t p ''dialog.enterDisplayName'')),
              (''value'', TextVal (name p))] [],
           Element ''div'' [(''className'', TextVal ''prejoin-preview-dropdown-container'')]
             [Element ''InlineDialog''
                [(''content'', dropdown_content p),
                 (''isOpen'', BoolVal (showJoinByPhoneButtons s)),
                 (''onClose'', Fn OnDropdownClose)]
                [Element ''ActionButton''
                   [(''disabled'', BoolVal (joinButtonDisabled p)),
                    (''hasOptions'', BoolVal True),
                    (''onClick'', Fn JoinConferenceProp),
                    (''onOptionsClick'', Fn OnOptionsClick),
                    (''testId'', TextVal ''prejoin.joinMeeting''),
                    (''type'', TextVal ''primary'')]
                   [TextVal (t p ''prejoin.joinMeeting'')]]]]]"

text \<open>\<^verbatim>\<open>render\<close>, lines 244-326.\<close>

definition Prejoin_render :: "Props \<Rightarrow> State \<Rightarrow> jsx" where
  "Prejoin_render p s =
     Element ''PreMeetingScreen''
       [(''footer'', Prejoin_renderFooter p),
        (''name'', TextVal (name p)),
        (''showAvatar'', BoolVal (showAvatar p)),
        (''showConferenceInfo'', BoolVal (showJoinActions p)),
        (''skipPrejoinButton'', Prejoin_renderSkipPrejoinButton p),
        (''title'', TextVal (t p ''prejoin.joinMeeting'')),
        (''videoMuted'', BoolVal (\<not> showCameraPreview p)),
        (''videoTrack'', TrackRef (videoTrack p))]
       [(if showJoinActions p then input_area p s else BoolVal False),
        (if showDialog p
         then Element ''JoinByPhoneDialog''
                [(''joinConferenceWithoutAudio'', Fn JoinConferenceWithoutAudioProp),
                 (''onClose'', Fn CloseDialog)] []
         else BoolVal False)]"

subsection \<open>Reading a rendered tree\<close>

text \<open>
  All elements of a tree, the tree itself first, then those inside its attributes, then
  those inside its children.
\<close>

fun elements :: "jsx \<Rightarrow> jsx list" where
  "elements (Element n as cs) =
     Element n as cs # concat (map elements (map snd as)) @ concat (map elements cs)"
| "elements _ = []"

fun tag :: "jsx \<Rightarrow> string" where
  "tag (Element n as cs) = n"
| "tag _ = []"

fun attr :: "string \<Rightarrow> jsx \<Rightarrow> jsx option" where
  "attr k (Element n as cs) = map_of as k"
| "attr k _ = None"

definition elements_named :: "string \<Rightarrow> jsx \<Rightarrow> jsx list" where
  "elements_named n x = filter (\<lambda>e. tag e = n) (elements x)"

definition contains_tag :: "string \<Rightarrow> jsx \<Rightarrow> bool" where
  "contains_tag n x = (elements_named n x \<noteq> [])"

text \<open>All callbacks that occur anywhere in a tree, in source order.\<close>

fun callbacks :: "jsx \<Rightarrow> callback list" where
  "callbacks (Element n as cs) =
     concat (map callbacks (map snd as)) @ concat (map callbacks cs)"
| "callbacks (Fn c) = [c]"
| "callbacks _ = []"

text \<open>The phone dialog is on display when the tree holds its element.\<close>

definition dialog_displayed :: "jsx \<Rightarrow> bool" where
  "dialog_displayed x = contains_tag ''JoinByPhoneDialog'' x"

text \<open>The dropdown is on display when the tree holds an inline dialog that is open.\<close>

definition dropdown_displayed :: "jsx \<Rightarrow> bool" where
  "dropdown_displayed x =
     list_ex (\<lambda>e. attr ''isOpen'' e = Some (BoolVal True)) (elements_named ''InlineDialog'' x)"

text \<open>Both at once: what the spec's invariant of the data model excludes.\<close>

definition both_displayed :: "jsx \<Rightarrow> bool" where
  "both_displayed x = (dialog_displayed x \<and> dropdown_displayed x)"

fun icons :: "jsx \<Rightarrow> icon list" where
  "icons (Element n as cs) = concat (map icons (map snd as)) @ concat (map icons cs)"
| "icons (IconRef ic) = [ic]"
| "icons _ = []"

text \<open>The callback that the first element named \<open>n\<close> carries as its \<^verbatim>\<open>onClose\<close>.\<close>

definition onClose_of :: "string \<Rightarrow> jsx \<Rightarrow> callback option" where
  "onClose_of n x =
     (case elements_named n x of
        [] \<Rightarrow> None
      | e # _ \<Rightarrow> (case attr ''onClose'' e of Some (Fn c) \<Rightarrow> Some c | _ \<Rightarrow> None))"

section \<open>Calling a callback\<close>

text \<open>
  What runs when a child calls a callback it was handed; \<open>a\<close> is the argument of the
  call (the text of the input field for \<^verbatim>\<open>onChange\<close>), which only \<^verbatim>\<open>_setName\<close>
  reads. The two function props are called as they are.
\<close>

fun invoke :: "callback \<Rightarrow> string \<Rightarrow> Props \<Rightarrow> Instance \<Rightarrow> Instance" where
  "invoke CloseDialog a p i = Prejoin_closeDialog p i"
| "invoke OnDropdownClose a p i = Prejoin_onDropdownClose p i"
| "invoke OnOptionsClick a p i = Prejoin_onOptionsClick p i"
| "invoke SetName a p i = Prejoin_setName p a i"
| "invoke ShowDialog a p i = Prejoin_showDialog p i"
| "invoke OnToggleButtonClick a p i = Prejoin_onToggleButtonClick p i"
| "invoke JoinConferenceProp a p i = call JoinConference i"
| "invoke JoinConferenceWithoutAudioProp a p i = call JoinConferenceWithoutAudio i"

text \<open>
  The child named \<open>n\<close> is dismissed: it calls the \<^verbatim>\<open>onClose\<close> it was handed, with
  no argument. Nothing happens when no such child is rendered.
\<close>

definition call_onClose :: "string \<Rightarrow> Props \<Rightarrow> Instance \<Rightarrow> Instance" where
  "call_onClose n p i =
     (case onClose_of n (Prejoin_render p (state i)) of
        None \<Rightarrow> i
      | Some c \<Rightarrow> invoke c [] p i)"

text \<open>
  The argument of the last \<^verbatim>\<open>setJoinByPhoneDialogVisiblity\<close> call in a log, if there
  is one.
\<close>

fun dispatched_visibility :: "effect list \<Rightarrow> bool option" where
  "dispatched_visibility [] = None"
| "dispatched_visibility (e # es) =
     (case dispatched_visibility es of
        Some b \<Rightarrow> Some b
      | None \<Rightarrow> (case e of SetJoinByPhoneDialogVisiblity b \<Rightarrow> Some b | _ \<Rightarrow> None))"

section \<open>Props: projection from the store and defaults\<close>

text \<open>
  The selectors that \<^verbatim>\<open>mapStateToProps\<close> imports (lines 6-26) are defined in other
  files; they are parameters here, with the result types that \<^verbatim>\<open>Props\<close> declares.
  \<open>'g\<close> is the type of the redux state.
\<close>

record 'g Selectors =
  getDisplayName :: "'g \<Rightarrow> string"
  isDisplayNameRequired :: "'g \<Rightarrow> bool"
  isPrejoinSkipped :: "'g \<Rightarrow> bool"
  isDeviceStatusVisible :: "'g \<Rightarrow> bool"
  getRoomName :: "'g \<Rightarrow> string"
  isJoinByPhoneDialogVisible :: "'g \<Rightarrow> bool"
  isJoinByPhoneButtonVisible :: "'g \<Rightarrow> bool"
  isVideoMutedByUser :: "'g \<Rightarrow> bool"
  getLocalJitsiVideoTrack :: "'g \<Rightarrow> jitsi_track option"

text \<open>
  \<^verbatim>\<open>mapStateToProps\<close>, lines 363-378. \<^verbatim>\<open>!name\<close> on a string is true exactly for
  the empty string.
\<close>

definition mapStateToProps :: "'g Selectors \<Rightarrow> 'g \<Rightarrow> StateProps" where
  "mapStateToProps sel st =
     (let name = getDisplayName sel st;
          joinButtonDisabled = (isDisplayNameRequired sel st \<and> name = [])
      in \<lparr>buttonIsToggled = isPrejoinSkipped sel st,
          joinButtonDisabled = joinButtonDisabled,
          name = name,
          deviceStatusVisible = isDeviceStatusVisible sel st,
          roomName = getRoomName sel st,
          showDialog = isJoinByPhoneDialogVisible sel st,
          hasJoinByPhoneButton = isJoinByPhoneButtonVisible sel st,
          showCameraPreview = (\<not> isVideoMutedByUser sel st),
          videoTrack = getLocalJitsiVideoTrack sel st\<rparr>)"

text \<open>
  What the parent passes: \<^verbatim>\<open>showJoinActions\<close> may be left out (\<open>None\<close>), and
  \<^verbatim>\<open>defaultProps\<close> (lines 136-138) names a value for that case.
\<close>

record OwnProps =
  own_showAvatar :: bool
  own_showJoinActions :: "bool option"

definition defaultProps_showJoinActions :: bool where
  "defaultProps_showJoinActions = True"

text \<open>
  The props the component receives: the parent's, with the default filled in where the
  parent supplied none, the projected ones (line 388, \<^verbatim>\<open>connect\<close>) and the
  translation function (\<^verbatim>\<open>translate\<close>).
\<close>

definition received_props :: "OwnProps \<Rightarrow> (string \<Rightarrow> string) \<Rightarrow> StateProps \<Rightarrow> Props" where
  "received_props own tr sp =
     StateProps.extend sp
       (Props.fields
          (own_showAvatar own)
          (case own_showJoinActions own of
             None \<Rightarrow> defaultProps_showJoinActions
           | Some b \<Rightarrow> b)
          tr)"

section \<open>The mounted component\<close>

text \<open>The component between two events: the props it was last rendered with, and itself.\<close>

record Mounted =
  props :: Props
  inst :: Instance

definition mount :: "Props \<Rightarrow> Mounted" where
  "mount p = \<lparr>props = p, inst = constructor p\<rparr>"

definition view :: "Mounted \<Rightarrow> jsx" where
  "view m = Prejoin_render (props m) (state (inst m))"

text \<open>
  Modelled from the spec: the store and its reducer for
  \<^verbatim>\<open>setJoinByPhoneDialogVisiblity\<close> are not in this file. The spec says of the action
  that it sets the phone dialog's visibility to its argument, and of the projection that
  it hands that visibility back as the prop \<^verbatim>\<open>showDialog\<close>. So the prop after a
  handler is the last value the handler dispatched, or the old one if it dispatched none.
\<close>

definition store_showDialog :: "effect list \<Rightarrow> bool \<Rightarrow> bool" where
  "store_showDialog es old = (case dispatched_visibility es of Some b \<Rightarrow> b | None \<Rightarrow> old)"

text \<open>
  One event: a child calls the callback \<open>c\<close> with argument \<open>a\<close>; the handler runs on
  the current props; the component is rendered again with the props \<open>p'\<close>, of which
  \<^verbatim>\<open>showDialog\<close> is the store's answer to what the handler dispatched. All other
  props of \<open>p'\<close> are whatever the parent and the store supply.
\<close>

definition fire :: "callback \<times> string \<times> Props \<Rightarrow> Mounted \<Rightarrow> Mounted" where
  "fire ev m =
     (case ev of (c, a, p') \<Rightarrow>
        (let i' = invoke c a (props m) ((inst m)\<lparr>effects := []\<rparr>)
         in \<lparr>props = p'\<lparr>showDialog := store_showDialog (effects i') (showDialog (props m))\<rparr>,
             inst = i'\<lparr>effects := effects (inst m) @ effects i'\<rparr>\<rparr>))"

fun run :: "(callback \<times> string \<times> Props) list \<Rightarrow> Mounted \<Rightarrow> Mounted" where
  "run [] m = m"
| "run (ev # evs) m = run evs (fire ev m)"

text \<open>
  A sequence of events in which the options toggle is never clicked while the prop
  \<^verbatim>\<open>showDialog\<close> is true.
\<close>

fun no_options_click_under_dialog :: "(callback \<times> string \<times> Props) list \<Rightarrow> Mounted \<Rightarrow> bool" where
  "no_options_click_under_dialog [] m = True"
| "no_options_click_under_dialog (ev # evs) m =
     (\<not> (fst ev = OnOptionsClick \<and> showDialog (props m))
      \<and> no_options_click_under_dialog evs (fire ev m))"

section \<open>Facts shared by the proofs\<close>

lemmas render_defs = Prejoin_render_def Prejoin_renderFooter_def
  Prejoin_renderSkipPrejoinButton_def input_area_def dropdown_content_def

lemmas handler_defs = Prejoin_closeDialog_def Prejoin_onDropdownClose_def
  Prejoin_onOptionsClick_def Prejoin_setName_def Prejoin_showDialog_def
  Prejoin_onToggleButtonClick_def call_def setState_def Let_def

lemma dispatched_visibility_append:
  "dispatched_visibility (xs @ ys) =
     (case dispatched_visibility ys of Some b \<Rightarrow> Some b | None \<Rightarrow> dispatched_visibility xs)"
  by (induction xs) (simp_all split: option.splits)

text \<open>What \<^verbatim>\<open>render\<close> puts on display, read off the props and the state.\<close>

lemma dialog_displayed_render: "dialog_displayed (Prejoin_render p s) = showDialog p"
  by (simp add: dialog_displayed_def contains_tag_def elements_named_def render_defs)

lemma dropdown_displayed_render:
  "dropdown_displayed (Prejoin_render p s) = (showJoinActions p \<and> showJoinByPhoneButtons s)"
  by (simp add: dropdown_displayed_def elements_named_def render_defs)

lemma contains_tag_render:
  "contains_tag ''InputField'' (Prejoin_render p s) = showJoinActions p"
  "contains_tag ''ActionButton'' (Prejoin_render p s) = showJoinActions p"
  "contains_tag ''InlineDialog'' (Prejoin_render p s) = showJoinActions p"
  by (simp_all add: contains_tag_def elements_named_def render_defs)

text \<open>One event, seen from the two flags.\<close>

lemma fire_showDialog:
  "showDialog (props (fire (c, a, p') m)) =
     (c = ShowDialog \<or> (c \<noteq> CloseDialog \<and> showDialog (props m)))"
  by (cases c) (simp_all add: fire_def store_showDialog_def handler_defs)

lemma fire_dropdown:
  "showJoinByPhoneButtons (state (inst (fire (c, a, p') m))) =
     (if c = OnOptionsClick then \<not> showJoinByPhoneButtons (state (inst m))
      else if c = ShowDialog \<or> c = OnDropdownClose then False
      else showJoinByPhoneButtons (state (inst m)))"
  by (cases c) (simp_all add: fire_def store_showDialog_def handler_defs)

lemma fire_keeps_exclusion:
  assumes "\<not> (showDialog (props m) \<and> showJoinByPhoneButtons (state (inst m)))"
    and "\<not> (fst ev = OnOptionsClick \<and> showDialog (props m))"
  shows "\<not> (showDialog (props (fire ev m)) \<and> showJoinByPhoneButtons (state (inst (fire ev m))))"
proof -
  obtain c a p' where ev: "ev = (c, a, p')" by (cases ev)
  show ?thesis using assms unfolding ev fire_showDialog fire_dropdown
    by (cases c) auto
qed

lemma run_keeps_exclusion:
  "\<not> (showDialog (props m) \<and> showJoinByPhoneButtons (state (inst m))) \<Longrightarrow>
   no_options_click_under_dialog evs m \<Longrightarrow>
   \<not> (showDialog (props (run evs m)) \<and> showJoinByPhoneButtons (state (inst (run evs m))))"
proof (induction evs arbitrary: m)
  case Nil
  then show ?case by simp
next
  case (Cons ev evs)
  from Cons.prems have g: "\<not> (fst ev = OnOptionsClick \<and> showDialog (props m))"
    and rest: "no_options_click_under_dialog evs (fire ev m)" by simp_all
  have "\<not> (showDialog (props (fire ev m)) \<and> showJoinByPhoneButtons (state (inst (fire ev m))))"
    using Cons.prems(1) g by (rule fire_keeps_exclusion)
  from Cons.IH [OF this rest] show ?case by simp
qed

section \<open>Dialog and dropdown on display\<close>

text \<open>
  C1, as stated: in every combination of local state and \<^verbatim>\<open>showDialog\<close> prop that the
  component can reach, the phone dialog and the dropdown are not both on display. This
  fails. The user opens the dropdown, picks the phone option (the dialog opens, the
  dropdown closes), and clicks the options toggle again: \<^verbatim>\<open>_onOptionsClick\<close> has no
  guard on \<^verbatim>\<open>showDialog\<close>, so the dropdown opens under the visible dialog. At the
  third click the toggle is among the callbacks of the rendered tree.
\<close>

theorem dialog_and_dropdown_both_displayed:
  "both_displayed
     (view (run [(OnOptionsClick, [], \<lparr>buttonIsToggled = False, joinButtonDisabled = False, name = ''Alice'',
         deviceStatusVisible = False, roomName = ''room'', showDialog = False,
         hasJoinByPhoneButton = True, showCameraPreview = True, videoTrack = None,
         showAvatar = False, showJoinActions = True, t = id\<rparr>),
                 (ShowDialog, [], \<lparr>buttonIsToggled = False, joinButtonDisabled = False, name = ''Alice'',
         deviceStatusVisible = False, roomName = ''room'', showDialog = False,
         hasJoinByPhoneButton = True, showCameraPreview = True, videoTrack = None,
         showAvatar = False, showJoinActions = True, t = id\<rparr>),
                 (OnOptionsClick, [], \<lparr>buttonIsToggled = False, joinButtonDisabled = False, name = ''Alice'',
         deviceStatusVisible = False, roomName = ''room'', showDialog = False,
         hasJoinByPhoneButton = True, showCameraPreview = True, videoTrack = None,
         showAvatar = False, showJoinActions = True, t = id\<rparr>)]
              (mount \<lparr>buttonIsToggled = False, joinButtonDisabled = False, name = ''Alice'',
         deviceStatusVisible = False, roomName = ''room'', showDialog = False,
         hasJoinByPhoneButton = True, showCameraPreview = True, videoTrack = None,
         showAvatar = False, showJoinActions = True, t = id\<rparr>)))
   \<and> OnOptionsClick \<in> set (callbacks
        (view (run [(OnOptionsClick, [], \<lparr>buttonIsToggled = False, joinButtonDisabled = False, name = ''Alice'',
         deviceStatusVisible = False, roomName = ''room'', showDialog = False,
         hasJoinByPhoneButton = True, showCameraPreview = True, videoTrack = None,
         showAvatar = False, showJoinActions = True, t = id\<rparr>),
                    (ShowDialog, [], \<lparr>buttonIsToggled = False, joinButtonDisabled = False, name = ''Alice'',
         deviceStatusVisible = False, roomName = ''room'', showDialog = False,
         hasJoinByPhoneButton = True, showCameraPreview = True, videoTrack = None,
         showAvatar = False, showJoinActions = True, t = id\<rparr>)]
                 (mount \<lparr>buttonIsToggled = False, joinButtonDisabled = False, name = ''Alice'',
         deviceStatusVisible = False, roomName = ''room'', showDialog = False,
         hasJoinByPhoneButton = True, showCameraPreview = True, videoTrack = None,
         showAvatar = False, showJoinActions = True, t = id\<rparr>))))"
  by (simp add: both_displayed_def view_def mount_def constructor_def fire_def
      store_showDialog_def handler_defs dialog_displayed_def dropdown_displayed_def
      contains_tag_def elements_named_def render_defs)

text \<open>
  C1, amended: start from the freshly constructed component, with any props, and let any
  callbacks be called in any order, the prop \<^verbatim>\<open>showDialog\<close> following what the
  component dispatches. As long as the options toggle is never clicked while
  \<^verbatim>\<open>showDialog\<close> is true, the phone dialog and the dropdown are never both on
  display. And every event that takes \<^verbatim>\<open>showDialog\<close> from false to true leaves the
  dropdown flag false.
\<close>

theorem dialog_dropdown_exclusive:
  "(no_options_click_under_dialog evs (mount p) \<longrightarrow>
      \<not> both_displayed (view (run evs (mount p))))
   \<and> (\<not> showDialog (props m) \<and> showDialog (props (fire ev m)) \<longrightarrow>
        \<not> showJoinByPhoneButtons (state (inst (fire ev m))))"
proof (intro conjI impI)
  assume g: "no_options_click_under_dialog evs (mount p)"
  have "\<not> (showDialog (props (mount p)) \<and> showJoinByPhoneButtons (state (inst (mount p))))"
    by (simp add: mount_def constructor_def)
  from run_keeps_exclusion [OF this g]
  show "\<not> both_displayed (view (run evs (mount p)))"
    by (simp add: both_displayed_def view_def dialog_displayed_render dropdown_displayed_render)
next
  assume a: "\<not> showDialog (props m) \<and> showDialog (props (fire ev m))"
  obtain c a' p' where ev: "ev = (c, a', p')" by (cases ev)
  from a have "c = ShowDialog" unfolding ev fire_showDialog by blast
  then show "\<not> showJoinByPhoneButtons (state (inst (fire ev m)))"
    unfolding ev fire_dropdown by simp
qed

theorem dialog_dropdown_exclusive_witness:
  "no_options_click_under_dialog
     [(OnOptionsClick, [], \<lparr>buttonIsToggled = False, joinButtonDisabled = False, name = ''Alice'',
         deviceStatusVisible = False, roomName = ''room'', showDialog = False,
         hasJoinByPhoneButton = True, showCameraPreview = True, videoTrack = None,
         showAvatar = False, showJoinActions = True, t = id\<rparr>),
      (ShowDialog, [], \<lparr>buttonIsToggled = False, joinButtonDisabled = False, name = ''Alice'',
         deviceStatusVisible = False, roomName = ''room'', showDialog = False,
         hasJoinByPhoneButton = True, showCameraPreview = True, videoTrack = None,
         showAvatar = False, showJoinActions = True, t = id\<rparr>)]
     (mount \<lparr>buttonIsToggled = False, joinButtonDisabled = False, name = ''Alice'',
         deviceStatusVisible = False, roomName = ''room'', showDialog = False,
         hasJoinByPhoneButton = True, showCameraPreview = True, videoTrack = None,
         showAvatar = False, showJoinActions = True, t = id\<rparr>)
   \<and> \<not> both_displayed
        (view (run [(OnOptionsClick, [], \<lparr>buttonIsToggled = False, joinButtonDisabled = False, name = ''Alice'',
         deviceStatusVisible = False, roomName = ''room'', showDialog = False,
         hasJoinByPhoneButton = True, showCameraPreview = True, videoTrack = None,
         showAvatar = False, showJoinActions = True, t = id\<rparr>),
                    (ShowDialog, [], \<lparr>buttonIsToggled = False, joinButtonDisabled = False, name = ''Alice'',
         deviceStatusVisible = False, roomName = ''room'', showDialog = False,
         hasJoinByPhoneButton = True, showCameraPreview = True, videoTrack = None,
         showAvatar = False, showJoinActions = True, t = id\<rparr>)]
                 (mount \<lparr>buttonIsToggled = False, joinButtonDisabled = False, name = ''Alice'',
         deviceStatusVisible = False, roomName = ''room'', showDialog = False,
         hasJoinByPhoneButton = True, showCameraPreview = True, videoTrack = None,
         showAvatar = False, showJoinActions = True, t = id\<rparr>)))
   \<and> \<not> showDialog (props (mount \<lparr>buttonIsToggled = False, joinButtonDisabled = False, name = ''Alice'',
         deviceStatusVisible = False, roomName = ''room'', showDialog = False,
         hasJoinByPhoneButton = True, showCameraPreview = True, videoTrack = None,
         showAvatar = False, showJoinActions = True, t = id\<rparr>))
   \<and> showDialog (props (fire (ShowDialog, [], \<lparr>buttonIsToggled = False, joinButtonDisabled = False, name = ''Alice'',
         deviceStatusVisible = False, roomName = ''room'', showDialog = False,
         hasJoinByPhoneButton = True, showCameraPreview = True, videoTrack = None,
         showAvatar = False, showJoinActions = True, t = id\<rparr>)
        (mount \<lparr>buttonIsToggled = False, joinButtonDisabled = False, name = ''Alice'',
         deviceStatusVisible = False, roomName = ''room'', showDialog = False,
         hasJoinByPhoneButton = True, showCameraPreview = True, videoTrack = None,
         showAvatar = False, showJoinActions = True, t = id\<rparr>)))
   \<and> \<not> showJoinByPhoneButtons (state (inst (fire (ShowDialog, [], \<lparr>buttonIsToggled = False, joinButtonDisabled = False, name = ''Alice'',
         deviceStatusVisible = False, roomName = ''room'', showDialog = False,
         hasJoinByPhoneButton = True, showCameraPreview = True, videoTrack = None,
         showAvatar = False, showJoinActions = True, t = id\<rparr>)
        (mount \<lparr>buttonIsToggled = False, joinButtonDisabled = False, name = ''Alice'',
         deviceStatusVisible = False, roomName = ''room'', showDialog = False,
         hasJoinByPhoneButton = True, showCameraPreview = True, videoTrack = None,
         showAvatar = False, showJoinActions = True, t = id\<rparr>))))"
proof -
  have g: "no_options_click_under_dialog
     [(OnOptionsClick, [], \<lparr>buttonIsToggled = False, joinButtonDisabled = False, name = ''Alice'',
         deviceStatusVisible = False, roomName = ''room'', showDialog = False,
         hasJoinByPhoneButton = True, showCameraPreview = True, videoTrack = None,
         showAvatar = False, showJoinActions = True, t = id\<rparr>),
      (ShowDialog, [], \<lparr>buttonIsToggled = False, joinButtonDisabled = False, name = ''Alice'',
         deviceStatusVisible = False, roomName = ''room'', showDialog = False,
         hasJoinByPhoneButton = True, showCameraPreview = True, videoTrack = None,
         showAvatar = False, showJoinActions = True, t = id\<rparr>)]
     (mount \<lparr>buttonIsToggled = False, joinButtonDisabled = False, name = ''Alice'',
         deviceStatusVisible = False, roomName = ''room'', showDialog = False,
         hasJoinByPhoneButton = True, showCameraPreview = True, videoTrack = None,
         showAvatar = False, showJoinActions = True, t = id\<rparr>)"
    by (simp add: mount_def constructor_def fire_def store_showDialog_def handler_defs)
  have h: "\<not> showDialog (props (mount \<lparr>buttonIsToggled = False, joinButtonDisabled = False, name = ''Alice'',
         deviceStatusVisible = False, roomName = ''room'', showDialog = False,
         hasJoinByPhoneButton = True, showCameraPreview = True, videoTrack = None,
         showAvatar = False, showJoinActions = True, t = id\<rparr>))
     \<and> showDialog (props (fire (ShowDialog, [], \<lparr>buttonIsToggled = False, joinButtonDisabled = False, name = ''Alice'',
         deviceStatusVisible = False, roomName = ''room'', showDialog = False,
         hasJoinByPhoneButton = True, showCameraPreview = True, videoTrack = None,
         showAvatar = False, showJoinActions = True, t = id\<rparr>)
        (mount \<lparr>buttonIsToggled = False, joinButtonDisabled = False, name = ''Alice'',
         deviceStatusVisible = False, roomName = ''room'', showDialog = False,
         hasJoinByPhoneButton = True, showCameraPreview = True, videoTrack = None,
         showAvatar = False, showJoinActions = True, t = id\<rparr>)))"
    by (simp add: mount_def constructor_def fire_def store_showDialog_def handler_defs)
  note c = dialog_dropdown_exclusive
    [of "[(OnOptionsClick, [], \<lparr>buttonIsToggled = False, joinButtonDisabled = False, name = ''Alice'',
         deviceStatusVisible = False, roomName = ''room'', showDialog = False,
         hasJoinByPhoneButton = True, showCameraPreview = True, videoTrack = None,
         showAvatar = False, showJoinActions = True, t = id\<rparr>),
          (ShowDialog, [], \<lparr>buttonIsToggled = False, joinButtonDisabled = False, name = ''Alice'',
         deviceStatusVisible = False, roomName = ''room'', showDialog = False,
         hasJoinByPhoneButton = True, showCameraPreview = True, videoTrack = None,
         showAvatar = False, showJoinActions = True, t = id\<rparr>)]"
        "\<lparr>buttonIsToggled = False, joinButtonDisabled = False, name = ''Alice'',
         deviceStatusVisible = False, roomName = ''room'', showDialog = False,
         hasJoinByPhoneButton = True, showCameraPreview = True, videoTrack = None,
         showAvatar = False, showJoinActions = True, t = id\<rparr>"
        "mount \<lparr>buttonIsToggled = False, joinButtonDisabled = False, name = ''Alice'',
         deviceStatusVisible = False, roomName = ''room'', showDialog = False,
         hasJoinByPhoneButton = True, showCameraPreview = True, videoTrack = None,
         showAvatar = False, showJoinActions = True, t = id\<rparr>"
        "(ShowDialog, [], \<lparr>buttonIsToggled = False, joinButtonDisabled = False, name = ''Alice'',
         deviceStatusVisible = False, roomName = ''room'', showDialog = False,
         hasJoinByPhoneButton = True, showCameraPreview = True, videoTrack = None,
         showAvatar = False, showJoinActions = True, t = id\<rparr>)"]
  from c g h show ?thesis by blast
qed

section \<open>The handlers\<close>

text \<open>
  C2: whatever the dropdown flag was, the open-phone-dialog handler first dispatches
  set-phone-dialog-visible with argument true and then sets the dropdown flag to false,
  in that order and with nothing in between; afterwards the flag is false and the
  visibility last dispatched is true.
\<close>

theorem showDialog_effect:
  "effects (Prejoin_showDialog p i) =
     effects i @ [SetJoinByPhoneDialogVisiblity True,
                  SetState \<lparr>showJoinByPhoneButtons = False\<rparr>]
   \<and> showJoinByPhoneButtons (state (Prejoin_showDialog p i)) = False
   \<and> dispatched_visibility (effects (Prejoin_showDialog p i)) = Some True"
  by (simp add: handler_defs dispatched_visibility_append)

text \<open>
  C3, as stated: the callback installed as the phone dialog's \<^verbatim>\<open>onClose\<close> is the
  dropdown-close handler, so dismissing the phone dialog sets the dropdown flag to false.
  This fails: the phone dialog's \<^verbatim>\<open>onClose\<close> is \<^verbatim>\<open>_closeDialog\<close> (line 322), and
  dismissing the dialog while the dropdown is open leaves it open.
\<close>

theorem phone_dialog_onClose_is_closeDialog:
  "onClose_of ''JoinByPhoneDialog''
     (Prejoin_render \<lparr>buttonIsToggled = False, joinButtonDisabled = False, name = ''Alice'',
        deviceStatusVisible = False, roomName = ''room'', showDialog = True,
        hasJoinByPhoneButton = True, showCameraPreview = True, videoTrack = None,
        showAvatar = False, showJoinActions = True, t = id\<rparr>
        \<lparr>showJoinByPhoneButtons = True\<rparr>) = Some CloseDialog
   \<and> showJoinByPhoneButtons (state (call_onClose ''JoinByPhoneDialog''
        \<lparr>buttonIsToggled = False, joinButtonDisabled = False, name = ''Alice'',
        deviceStatusVisible = False, roomName = ''room'', showDialog = True,
        hasJoinByPhoneButton = True, showCameraPreview = True, videoTrack = None,
        showAvatar = False, showJoinActions = True, t = id\<rparr>
        \<lparr>state = \<lparr>showJoinByPhoneButtons = True\<rparr>, effects = []\<rparr>)) = True"
  by (simp add: call_onClose_def onClose_of_def elements_named_def render_defs handler_defs)

text \<open>
  C3, amended: the dropdown-close handler is the \<^verbatim>\<open>onClose\<close> of the options
  dropdown (the inline dialog), and dismissing the dropdown sets the dropdown flag to
  false. The \<^verbatim>\<open>onClose\<close> of the phone dialog is the close-phone-dialog handler, and
  dismissing the phone dialog dispatches set-phone-dialog-visible with argument false
  and leaves the local state as it was.
\<close>

theorem onClose_hooks:
  "(showJoinActions p \<longrightarrow>
      onClose_of ''InlineDialog'' (Prejoin_render p (state i)) = Some OnDropdownClose
      \<and> showJoinByPhoneButtons (state (call_onClose ''InlineDialog'' p i)) = False)
   \<and> (showDialog p \<longrightarrow>
        onClose_of ''JoinByPhoneDialog'' (Prejoin_render p (state i)) = Some CloseDialog
        \<and> state (call_onClose ''JoinByPhoneDialog'' p i) = state i
        \<and> effects (call_onClose ''JoinByPhoneDialog'' p i) =
            effects i @ [SetJoinByPhoneDialogVisiblity False])"
  by (simp add: call_onClose_def onClose_of_def elements_named_def render_defs handler_defs)

theorem onClose_hooks_witness:
  "showJoinActions \<lparr>buttonIsToggled = False, joinButtonDisabled = False, name = ''Alice'',
        deviceStatusVisible = False, roomName = ''room'', showDialog = True,
        hasJoinByPhoneButton = True, showCameraPreview = True, videoTrack = None,
        showAvatar = False, showJoinActions = True, t = id\<rparr>
   \<and> showDialog \<lparr>buttonIsToggled = False, joinButtonDisabled = False, name = ''Alice'',
        deviceStatusVisible = False, roomName = ''room'', showDialog = True,
        hasJoinByPhoneButton = True, showCameraPreview = True, videoTrack = None,
        showAvatar = False, showJoinActions = True, t = id\<rparr>
   \<and> onClose_of ''InlineDialog''
        (Prejoin_render \<lparr>buttonIsToggled = False, joinButtonDisabled = False, name = ''Alice'',
        deviceStatusVisible = False, roomName = ''room'', showDialog = True,
        hasJoinByPhoneButton = True, showCameraPreview = True, videoTrack = None,
        showAvatar = False, showJoinActions = True, t = id\<rparr>
           \<lparr>showJoinByPhoneButtons = True\<rparr>) = Some OnDropdownClose
   \<and> showJoinByPhoneButtons (state (call_onClose ''InlineDialog''
        \<lparr>buttonIsToggled = False, joinButtonDisabled = False, name = ''Alice'',
        deviceStatusVisible = False, roomName = ''room'', showDialog = True,
        hasJoinByPhoneButton = True, showCameraPreview = True, videoTrack = None,
        showAvatar = False, showJoinActions = True, t = id\<rparr>
        \<lparr>state = \<lparr>showJoinByPhoneButtons = True\<rparr>, effects = []\<rparr>)) = False
   \<and> onClose_of ''JoinByPhoneDialog''
        (Prejoin_render \<lparr>buttonIsToggled = False, joinButtonDisabled = False, name = ''Alice'',
        deviceStatusVisible = False, roomName = ''room'', showDialog = True,
        hasJoinByPhoneButton = True, showCameraPreview = True, videoTrack = None,
        showAvatar = False, showJoinActions = True, t = id\<rparr>
           \<lparr>showJoinByPhoneButtons = True\<rparr>) = Some CloseDialog
   \<and> state (call_onClose ''JoinByPhoneDialog''
        \<lparr>buttonIsToggled = False, joinButtonDisabled = False, name = ''Alice'',
        deviceStatusVisible = False, roomName = ''room'', showDialog = True,
        hasJoinByPhoneButton = True, showCameraPreview = True, videoTrack = None,
        showAvatar = False, showJoinActions = True, t = id\<rparr>
        \<lparr>state = \<lparr>showJoinByPhoneButtons = True\<rparr>, effects = []\<rparr>)
       = \<lparr>showJoinByPhoneButtons = True\<rparr>
   \<and> effects (call_onClose ''JoinByPhoneDialog''
        \<lparr>buttonIsToggled = False, joinButtonDisabled = False, name = ''Alice'',
        deviceStatusVisible = False, roomName = ''room'', showDialog = True,
        hasJoinByPhoneButton = True, showCameraPreview = True, videoTrack = None,
        showAvatar = False, showJoinActions = True, t = id\<rparr>
        \<lparr>state = \<lparr>showJoinByPhoneButtons = True\<rparr>, effects = []\<rparr>)
       = [SetJoinByPhoneDialogVisiblity False]"
proof -
  have h: "showJoinActions \<lparr>buttonIsToggled = False, joinButtonDisabled = False, name = ''Alice'',
        deviceStatusVisible = False, roomName = ''room'', showDialog = True,
        hasJoinByPhoneButton = True, showCameraPreview = True, videoTrack = None,
        showAvatar = False, showJoinActions = True, t = id\<rparr>
     \<and> showDialog \<lparr>buttonIsToggled = False, joinButtonDisabled = False, name = ''Alice'',
        deviceStatusVisible = False, roomName = ''room'', showDialog = True,
        hasJoinByPhoneButton = True, showCameraPreview = True, videoTrack = None,
        showAvatar = False, showJoinActions = True, t = id\<rparr>"
    by simp
  note c = onClose_hooks
    [of "\<lparr>buttonIsToggled = False, joinButtonDisabled = False, name = ''Alice'',
        deviceStatusVisible = False, roomName = ''room'', showDialog = True,
        hasJoinByPhoneButton = True, showCameraPreview = True, videoTrack = None,
        showAvatar = False, showJoinActions = True, t = id\<rparr>"
        "\<lparr>state = \<lparr>showJoinByPhoneButtons = True\<rparr>, effects = []\<rparr>"]
  from c h show ?thesis by simp
qed

text \<open>
  C5: the options-toggle handler first stops the propagation of the event and then sets
  the dropdown flag to its negation; two clicks in a row bring the local state back to
  what it was.
\<close>

theorem onOptionsClick_toggle:
  "effects (Prejoin_onOptionsClick p i) =
     effects i @ [StopPropagation,
                  SetState \<lparr>showJoinByPhoneButtons = \<not> showJoinByPhoneButtons (state i)\<rparr>]
   \<and> showJoinByPhoneButtons (state (Prejoin_onOptionsClick p i)) =
       (\<not> showJoinByPhoneButtons (state i))
   \<and> showJoinByPhoneButtons (state (Prejoin_onOptionsClick p' (Prejoin_onOptionsClick p i))) =
       showJoinByPhoneButtons (state i)
   \<and> state (Prejoin_onOptionsClick p' (Prejoin_onOptionsClick p i)) = state i"
  by (simp add: handler_defs)

text \<open>
  C8: whatever the prop \<^verbatim>\<open>buttonIsToggled\<close> is, the toggle handler dispatches
  set-skip-prejoin with the negation of that prop, and does nothing else: the log grows
  by that one call and the local state stays.
\<close>

theorem onToggleButtonClick_effect:
  "effects (Prejoin_onToggleButtonClick p i) =
     effects i @ [SetSkipPrejoin (\<not> buttonIsToggled p)]
   \<and> state (Prejoin_onToggleButtonClick p i) = state i"
  by (simp add: handler_defs)

text \<open>
  C10: for every local state, the close-phone-dialog handler dispatches
  set-phone-dialog-visible with argument false, does nothing else, and leaves the local
  flag \<^verbatim>\<open>showJoinByPhoneButtons\<close> as it was.
\<close>

theorem closeDialog_frame:
  "effects (Prejoin_closeDialog p i) = effects i @ [SetJoinByPhoneDialogVisiblity False]
   \<and> state (Prejoin_closeDialog p i) = state i
   \<and> showJoinByPhoneButtons (state (Prejoin_closeDialog p i)) =
       showJoinByPhoneButtons (state i)"
  by (simp add: handler_defs)

section \<open>The projection from the store\<close>

text \<open>
  C4: for every redux state, the projected \<^verbatim>\<open>joinButtonDisabled\<close> is true exactly
  when a display name is required and the projected name is empty. With the empty name
  and a required display name it is true; with the name Alice it is false.
\<close>

theorem mapStateToProps_joinButtonDisabled:
  "joinButtonDisabled (mapStateToProps sel st) =
     (isDisplayNameRequired sel st \<and> name (mapStateToProps sel st) = [])
   \<and> joinButtonDisabled
        (mapStateToProps
           (sel\<lparr>getDisplayName := \<lambda>_. [], isDisplayNameRequired := \<lambda>_. True\<rparr>) st)
   \<and> \<not> joinButtonDisabled (mapStateToProps (sel\<lparr>getDisplayName := \<lambda>_. ''Alice''\<rparr>) st)"
  by (simp add: mapStateToProps_def Let_def)

section \<open>What is rendered\<close>

text \<open>
  C6: when \<^verbatim>\<open>showJoinActions\<close> is false, the rendered tree holds no name input
  field, no join button and no options dropdown, whatever the other props and the state.
\<close>

theorem no_join_actions:
  assumes "showJoinActions p = False"
  shows "\<not> contains_tag ''InputField'' (Prejoin_render p s)
       \<and> \<not> contains_tag ''ActionButton'' (Prejoin_render p s)
       \<and> \<not> contains_tag ''InlineDialog'' (Prejoin_render p s)
       \<and> \<not> dropdown_displayed (Prejoin_render p s)"
  using assms by (simp add: contains_tag_render dropdown_displayed_render)

theorem no_join_actions_witness:
  "showJoinActions \<lparr>buttonIsToggled = False, joinButtonDisabled = False, name = ''Alice'',
        deviceStatusVisible = False, roomName = ''room'', showDialog = False,
        hasJoinByPhoneButton = True, showCameraPreview = True, videoTrack = None,
        showAvatar = False, showJoinActions = False, t = id\<rparr> = False
   \<and> \<not> contains_tag ''InputField''
        (Prejoin_render \<lparr>buttonIsToggled = False, joinButtonDisabled = False, name = ''Alice'',
        deviceStatusVisible = False, roomName = ''room'', showDialog = False,
        hasJoinByPhoneButton = True, showCameraPreview = True, videoTrack = None,
        showAvatar = False, showJoinActions = False, t = id\<rparr>
           \<lparr>showJoinByPhoneButtons = True\<rparr>)
   \<and> \<not> contains_tag ''ActionButton''
        (Prejoin_render \<lparr>buttonIsToggled = False, joinButtonDisabled = False, name = ''Alice'',
        deviceStatusVisible = False, roomName = ''room'', showDialog = False,
        hasJoinByPhoneButton = True, showCameraPreview = True, videoTrack = None,
        showAvatar = False, showJoinActions = False, t = id\<rparr>
           \<lparr>showJoinByPhoneButtons = True\<rparr>)
   \<and> \<not> contains_tag ''InlineDialog''
        (Prejoin_render \<lparr>buttonIsToggled = False, joinButtonDisabled = False, name = ''Alice'',
        deviceStatusVisible = False, roomName = ''room'', showDialog = False,
        hasJoinByPhoneButton = True, showCameraPreview = True, videoTrack = None,
        showAvatar = False, showJoinActions = False, t = id\<rparr>
           \<lparr>showJoinByPhoneButtons = True\<rparr>)
   \<and> \<not> dropdown_displayed
        (Prejoin_render \<lparr>buttonIsToggled = False, joinButtonDisabled = False, name = ''Alice'',
        deviceStatusVisible = False, roomName = ''room'', showDialog = False,
        hasJoinByPhoneButton = True, showCameraPreview = True, videoTrack = None,
        showAvatar = False, showJoinActions = False, t = id\<rparr>
           \<lparr>showJoinByPhoneButtons = True\<rparr>)"
proof -
  have h: "showJoinActions \<lparr>buttonIsToggled = False, joinButtonDisabled = False, name = ''Alice'',
        deviceStatusVisible = False, roomName = ''room'', showDialog = False,
        hasJoinByPhoneButton = True, showCameraPreview = True, videoTrack = None,
        showAvatar = False, showJoinActions = False, t = id\<rparr> = False"
    by simp
  from no_join_actions [OF h, of "\<lparr>showJoinByPhoneButtons = True\<rparr>"] h
  show ?thesis by blast
qed

text \<open>
  C7: when \<^verbatim>\<open>showJoinActions\<close> is true and \<^verbatim>\<open>hasJoinByPhoneButton\<close> is false, the
  content of the options dropdown offers joining without audio and nothing else: its
  only callback is the join-without-audio one, its only icon the muted speaker, and
  neither the open-phone-dialog callback nor the phone icon occurs anywhere in the
  rendered tree.
\<close>

theorem no_phone_option:
  assumes "showJoinActions p = True" and "hasJoinByPhoneButton p = False"
  shows "map (attr ''content'') (elements_named ''InlineDialog'' (Prejoin_render p s))
           = [Some (dropdown_content p)]
       \<and> callbacks (dropdown_content p) = [JoinConferenceWithoutAudioProp]
       \<and> icons (dropdown_content p) = [IconVolumeOff]
       \<and> ShowDialog \<notin> set (callbacks (Prejoin_render p s))
       \<and> IconPhone \<notin> set (icons (Prejoin_render p s))"
  using assms by (simp add: elements_named_def render_defs)

theorem no_phone_option_witness:
  "showJoinActions \<lparr>buttonIsToggled = False, joinButtonDisabled = False, name = ''Alice'',
        deviceStatusVisible = False, roomName = ''room'', showDialog = False,
        hasJoinByPhoneButton = False, showCameraPreview = True, videoTrack = None,
        showAvatar = False, showJoinActions = True, t = id\<rparr> = True
   \<and> hasJoinByPhoneButton \<lparr>buttonIsToggled = False, joinButtonDisabled = False, name = ''Alice'',
        deviceStatusVisible = False, roomName = ''room'', showDialog = False,
        hasJoinByPhoneButton = False, showCameraPreview = True, videoTrack = None,
        showAvatar = False, showJoinActions = True, t = id\<rparr> = False
   \<and> callbacks (dropdown_content \<lparr>buttonIsToggled = False, joinButtonDisabled = False, name = ''Alice'',
        deviceStatusVisible = False, roomName = ''room'', showDialog = False,
        hasJoinByPhoneButton = False, showCameraPreview = True, videoTrack = None,
        showAvatar = False, showJoinActions = True, t = id\<rparr>)
       = [JoinConferenceWithoutAudioProp]
   \<and> icons (dropdown_content \<lparr>buttonIsToggled = False, joinButtonDisabled = False, name = ''Alice'',
        deviceStatusVisible = False, roomName = ''room'', showDialog = False,
        hasJoinByPhoneButton = False, showCameraPreview = True, videoTrack = None,
        showAvatar = False, showJoinActions = True, t = id\<rparr>)
       = [IconVolumeOff]
   \<and> ShowDialog \<notin> set (callbacks
        (Prejoin_render \<lparr>buttonIsToggled = False, joinButtonDisabled = False, name = ''Alice'',
        deviceStatusVisible = False, roomName = ''room'', showDialog = False,
        hasJoinByPhoneButton = False, showCameraPreview = True, videoTrack = None,
        showAvatar = False, showJoinActions = True, t = id\<rparr>
           \<lparr>showJoinByPhoneButtons = True\<rparr>))
   \<and> IconPhone \<notin> set (icons
        (Prejoin_render \<lparr>buttonIsToggled = False, joinButtonDisabled = False, name = ''Alice'',
        deviceStatusVisible = False, roomName = ''room'', showDialog = False,
        hasJoinByPhoneButton = False, showCameraPreview = True, videoTrack = None,
        showAvatar = False, showJoinActions = True, t = id\<rparr>
           \<lparr>showJoinByPhoneButtons = True\<rparr>))"
proof -
  have h1: "showJoinActions \<lparr>buttonIsToggled = False, joinButtonDisabled = False, name = ''Alice'',
        deviceStatusVisible = False, roomName = ''room'', showDialog = False,
        hasJoinByPhoneButton = False, showCameraPreview = True, videoTrack = None,
        showAvatar = False, showJoinActions = True, t = id\<rparr> = True"
    by simp
  have h2: "hasJoinByPhoneButton \<lparr>buttonIsToggled = False, joinButtonDisabled = False, name = ''Alice'',
        deviceStatusVisible = False, roomName = ''room'', showDialog = False,
        hasJoinByPhoneButton = False, showCameraPreview = True, videoTrack = None,
        showAvatar = False, showJoinActions = True, t = id\<rparr> = False"
    by simp
  from no_phone_option [OF h1 h2, of "\<lparr>showJoinByPhoneButtons = True\<rparr>"] h1 h2
  show ?thesis by blast
qed

text \<open>
  C9: when the parent does not supply \<^verbatim>\<open>showJoinActions\<close>, the component receives
  it as true, so the name input, the join button and the options dropdown are rendered.
\<close>

theorem showJoinActions_default:
  assumes "own_showJoinActions own = None"
  shows "showJoinActions (received_props own tr sp) = True
       \<and> contains_tag ''InputField'' (Prejoin_render (received_props own tr sp) s)
       \<and> contains_tag ''ActionButton'' (Prejoin_render (received_props own tr sp) s)
       \<and> contains_tag ''InlineDialog'' (Prejoin_render (received_props own tr sp) s)"
proof -
  from assms have "showJoinActions (received_props own tr sp) = True"
    by (simp add: received_props_def defaultProps_showJoinActions_def
        StateProps.defs Props.defs)
  then show ?thesis by (simp add: contains_tag_render)
qed

theorem showJoinActions_default_witness:
  "own_showJoinActions \<lparr>own_showAvatar = False, own_showJoinActions = None\<rparr> = None
   \<and> showJoinActions
        (received_props \<lparr>own_showAvatar = False, own_showJoinActions = None\<rparr> id
           \<lparr>buttonIsToggled = False, joinButtonDisabled = False, name = ''Alice'',
               deviceStatusVisible = False, roomName = ''room'', showDialog = False,
               hasJoinByPhoneButton = True, showCameraPreview = True,
               videoTrack = None\<rparr>) = True
   \<and> contains_tag ''InputField''
        (Prejoin_render
           (received_props \<lparr>own_showAvatar = False, own_showJoinActions = None\<rparr> id
              \<lparr>buttonIsToggled = False, joinButtonDisabled = False, name = ''Alice'',
               deviceStatusVisible = False, roomName = ''room'', showDialog = False,
               hasJoinByPhoneButton = True, showCameraPreview = True,
               videoTrack = None\<rparr>)
           \<lparr>showJoinByPhoneButtons = False\<rparr>)
   \<and> contains_tag ''ActionButton''
        (Prejoin_render
           (received_props \<lparr>own_showAvatar = False, own_showJoinActions = None\<rparr> id
              \<lparr>buttonIsToggled = False, joinButtonDisabled = False, name = ''Alice'',
               deviceStatusVisible = False, roomName = ''room'', showDialog = False,
               hasJoinByPhoneButton = True, showCameraPreview = True,
               videoTrack = None\<rparr>)
           \<lparr>showJoinByPhoneButtons = False\<rparr>)
   \<and> contains_tag ''InlineDialog''
        (Prejoin_render
           (received_props \<lparr>own_showAvatar = False, own_showJoinActions = None\<rparr> id
              \<lparr>buttonIsToggled = False, joinButtonDisabled = False, name = ''Alice'',
               deviceStatusVisible = False, roomName = ''room'', showDialog = False,
               hasJoinByPhoneButton = True, showCameraPreview = True,
               videoTrack = None\<rparr>)
           \<lparr>showJoinByPhoneButtons = False\<rparr>)"
proof -
  have h: "own_showJoinActions \<lparr>own_showAvatar = False, own_showJoinActions = None\<rparr> = None"
    by simp
  from showJoinActions_default
    [OF h, of id
       "\<lparr>buttonIsToggled = False, joinButtonDisabled = False, name = ''Alice'',
               deviceStatusVisible = False, roomName = ''room'', showDialog = False,
               hasJoinByPhoneButton = True, showCameraPreview = True,
               videoTrack = None\<rparr>"
       "\<lparr>showJoinByPhoneButtons = False\<rparr>"] h
  show ?thesis by blast
qed

end
